theory Spec2Isabelle
  imports Main "HOL-Library.Word"
begin

unbundle bit_operations_syntax

section \<open>Values and errors\<close>

text \<open>
  The store accepts a Go \<^verbatim>\<open>interface{}\<close>.  The dynamic types that matter are the four
  the type switches of \<^verbatim>\<open>toValueType\<close> and \<^verbatim>\<open>toBlobString\<close> name (\<^verbatim>\<open>bool\<close>,
  \<^verbatim>\<open>int\<close>, \<^verbatim>\<open>float64\<close>, \<^verbatim>\<open>string\<close>) and, for the \<^verbatim>\<open>default\<close> branch, some that
  they do not name: \<^verbatim>\<open>int64\<close> (a different dynamic type from \<^verbatim>\<open>int\<close>), \<^verbatim>\<open>[]string\<close>
  (the disallowed value of the tests) and the nil interface.

  Go's \<^verbatim>\<open>int\<close> is taken to be 64 bits wide (\<^verbatim>\<open>strconv.IntSize = 64\<close>).  A \<^verbatim>\<open>float64\<close> is
  its IEEE-754 bit pattern, as \<^verbatim>\<open>math.Float64bits\<close> returns it.
\<close>

type_synonym float64 = "64 word"

datatype gvalue =
    GBool bool
  | GInt "64 word"
  | GFloat64 float64
  | GString string
  | GInt64 "64 word"
  | GStrings "string list"
  | GNil

text \<open>\<^verbatim>\<open>strconv.NumError.Err\<close>: the two causes a failed parse reports.\<close>

datatype num_error = ErrSyntax | ErrRange

text \<open>What \<^verbatim>\<open>QueryRow(...).Scan\<close> and \<^verbatim>\<open>Exec\<close> report: \<^verbatim>\<open>sql.ErrNoRows\<close>, or any other
  failure of the connection or the driver.\<close>

datatype sql_error = ErrNoRows | ErrDriver

text \<open>
  The errors the package returns.  \<^verbatim>\<open>ErrNoEntry\<close> and \<^verbatim>\<open>ErrFailedToParse\<close> are the two
  error types it declares; the others are the messages it builds with \<^verbatim>\<open>errors.New\<close>
  and \<^verbatim>\<open>fmt.Errorf\<close>, one constructor per message, carrying the entry name the message
  quotes.  \<^verbatim>\<open>ErrSQL\<close> is an error of \<^verbatim>\<open>database/sql\<close> handed on unchanged.
\<close>

datatype error =
    ErrNoEntry string
  | ErrFailedToParse num_error
  | ErrDisallowedType
  | ErrUnrecognizable
  | ErrTypeChange string
  | ErrInsertFailed string
  | ErrUpdateFailed string
  | ErrDeleteFailed string
  | ErrExistsFailed
  | ErrSQL sql_error

text \<open>A function that may panic either returns or panics with the value given to
  \<^verbatim>\<open>panic\<close>.\<close>

datatype 'a outcome = Returns 'a | Panics error


section \<open>The parts of \<^verbatim>\<open>strconv\<close> the codec calls\<close>

subsection \<open>Booleans\<close>

definition FormatBool :: "bool \<Rightarrow> string" where
  "FormatBool b = (if b then ''true'' else ''false'')"

text \<open>\<^verbatim>\<open>ParseBool\<close> accepts exactly twelve spellings.\<close>

definition ParseBool :: "string \<Rightarrow> num_error + bool" where
  "ParseBool str =
     (if str \<in> set [''1'', ''t'', ''T'', ''TRUE'', ''true'', ''True''] then Inr True
      else if str \<in> set [''0'', ''f'', ''F'', ''FALSE'', ''false'', ''False''] then Inr False
      else Inl ErrSyntax)"

subsection \<open>Integers, base 10\<close>

text \<open>\<^verbatim>\<open>formatBits\<close> fills its buffer from the right, one decimal digit of \<open>u\<close> per step
  (the library takes them two at a time from a table), until \<open>u < 10\<close>.\<close>

definition digit_char :: "nat \<Rightarrow> char" where
  "digit_char d = char_of (of_char CHR ''0'' + d)"

fun formatBits_loop :: "nat \<Rightarrow> string \<Rightarrow> string" where
  "formatBits_loop u a =
     (if 10 \<le> u then formatBits_loop (u div 10) (digit_char (u mod 10) # a)
      else digit_char u # a)"

declare formatBits_loop.simps [simp del]

text \<open>\<^verbatim>\<open>FormatInt(i, 10)\<close>: a negative \<open>i\<close> is negated as an unsigned 64-bit number, so the
  smallest integer prints as its magnitude \<open>2^63\<close>.\<close>

definition FormatInt :: "64 word \<Rightarrow> string" where
  "FormatInt i =
     (if i <s 0 then CHR ''-'' # formatBits_loop (unat (- i)) []
      else formatBits_loop (unat i) [])"

definition maxUint64 :: nat where
  "maxUint64 = 2 ^ 64 - 1"

definition lower :: "char \<Rightarrow> char" where
  "lower c = char_of (of_char c OR (of_char CHR ''x'' - of_char CHR ''X'' :: nat))"

text \<open>The digit value \<^verbatim>\<open>ParseUint\<close> gives a byte: decimal digits, then letters from 10 on,
  nothing for any other byte (underscores count only with base 0).\<close>

definition byte :: "char \<Rightarrow> nat" where
  "byte c = of_char c"

definition digit_val :: "char \<Rightarrow> nat option" where
  "digit_val c =
     (if byte CHR ''0'' \<le> byte c \<and> byte c \<le> byte CHR ''9'' then Some (byte c - byte CHR ''0'')
      else if byte CHR ''a'' \<le> byte (lower c) \<and> byte (lower c) \<le> byte CHR ''z''
        then Some (byte (lower c) - byte CHR ''a'' + 10)
      else None)"

text \<open>The loop of \<^verbatim>\<open>ParseUint(s, 10, 64)\<close> over the bytes of \<open>s\<close>, with \<open>n\<close> the number read so
  far.  It returns the pair the library returns: the value and the error, if any.\<close>

fun ParseUint_loop :: "nat \<Rightarrow> string \<Rightarrow> nat \<times> num_error option" where
  "ParseUint_loop n [] = (n, None)"
| "ParseUint_loop n (c # cs) =
     (case digit_val c of
        None \<Rightarrow> (0, Some ErrSyntax)
      | Some d \<Rightarrow>
          if 10 \<le> d then (0, Some ErrSyntax)
          else if maxUint64 div 10 + 1 \<le> n then (maxUint64, Some ErrRange)
          else if maxUint64 < n * 10 + d then (maxUint64, Some ErrRange)
          else ParseUint_loop (n * 10 + d) cs)"

definition ParseUint :: "string \<Rightarrow> nat \<times> num_error option" where
  "ParseUint s = (if s = [] then (0, Some ErrSyntax) else ParseUint_loop 0 s)"

text \<open>\<^verbatim>\<open>ParseInt(s, 10, 0)\<close>: an optional sign, then \<^verbatim>\<open>ParseUint\<close>, then the range of a
  64-bit \<^verbatim>\<open>int\<close>.\<close>

definition ParseInt :: "string \<Rightarrow> num_error + 64 word" where
  "ParseInt s0 =
     (if s0 = [] then Inl ErrSyntax
      else
        let neg = (hd s0 = CHR ''-'');
            s = (if hd s0 = CHR ''+'' \<or> hd s0 = CHR ''-'' then tl s0 else s0);
            (un, err) = ParseUint s;
            cutoff = (2::nat) ^ 63
        in if err = Some ErrSyntax then Inl ErrSyntax
           else if \<not> neg \<and> cutoff \<le> un then Inl ErrRange
           else if neg \<and> cutoff < un then Inl ErrRange
           else Inr (if neg then - word_of_nat un else word_of_nat un))"

subsection \<open>Floats\<close>

text \<open>
  The digit generation and the correctly rounded parsing of \<^verbatim>\<open>strconv\<close> belong to the Go
  library, not to this package, and enter as a parameter: \<open>ftoa L f fmt\<close> is the text
  \<^verbatim>\<open>FormatFloat(f, fmt, -1, 64)\<close> produces for a float \<open>f\<close> that is not a NaN, and
  \<open>atof L s\<close> is the result of \<^verbatim>\<open>ParseFloat(s, 64)\<close> on a text \<open>s\<close> that does not spell NaN.
  Every call site uses precision \<open>-1\<close> and 64 bits, so neither is an argument.
\<close>

record strconv_float =
  ftoa :: "float64 \<Rightarrow> char \<Rightarrow> string"
  atof :: "string \<Rightarrow> num_error + float64"

text \<open>What the library does with NaN is fixed: \<^verbatim>\<open>FormatFloat\<close> prints every float whose
  exponent bits are all ones and whose mantissa is not zero as \<^verbatim>\<open>NaN\<close>, and \<^verbatim>\<open>ParseFloat\<close>
  answers the three letters, in either case, with \<^verbatim>\<open>math.NaN()\<close>.\<close>

definition isNaN :: "float64 \<Rightarrow> bool" where
  "isNaN f \<longleftrightarrow> f AND 0x7FF0000000000000 = 0x7FF0000000000000 \<and> f AND 0x000FFFFFFFFFFFFF \<noteq> 0"

definition NaN :: float64 where
  "NaN = 0x7FF8000000000001"

definition fold_case :: "char \<Rightarrow> char" where
  "fold_case c =
     (if byte CHR ''A'' \<le> byte c \<and> byte c \<le> byte CHR ''Z''
      then char_of (byte c + (byte CHR ''a'' - byte CHR ''A'')) else c)"

definition FormatFloat :: "strconv_float \<Rightarrow> float64 \<Rightarrow> char \<Rightarrow> string" where
  "FormatFloat L f fmt = (if isNaN f then ''NaN'' else ftoa L f fmt)"

definition ParseFloat :: "strconv_float \<Rightarrow> string \<Rightarrow> num_error + float64" where
  "ParseFloat L s = (if map fold_case s = ''nan'' then Inr NaN else atof L s)"


section \<open>The codec\<close>

text \<open>\<^verbatim>\<open>uint\<close> is a 64-bit word.\<close>

fun toValueType :: "gvalue \<Rightarrow> error + 64 word" where
  "toValueType (GBool _) = Inr 0"
| "toValueType (GInt _) = Inr 1"
| "toValueType (GFloat64 _) = Inr 2"
| "toValueType (GString _) = Inr 3"
| "toValueType _ = Inl ErrDisallowedType"

text \<open>\<^verbatim>\<open>toBlobString\<close> of \<^verbatim>\<open>metadb.go\<close>: the text and the type of a value.\<close>

fun toBlobString :: "strconv_float \<Rightarrow> gvalue \<Rightarrow> error + string \<times> 64 word" where
  "toBlobString L (GBool b) = Inr (FormatBool b, 0)"
| "toBlobString L (GInt i) = Inr (FormatInt i, 1)"
| "toBlobString L (GFloat64 f) = Inr (FormatFloat L f CHR ''E'', 2)"
| "toBlobString L (GString s) = Inr (s, 3)"
| "toBlobString L _ = Inl ErrDisallowedType"

definition fromBlobString :: "strconv_float \<Rightarrow> string \<Rightarrow> 64 word \<Rightarrow> error + gvalue" where
  "fromBlobString L value' valueType =
     (if valueType = 0 then
        (case ParseBool value' of
           Inl err \<Rightarrow> Inl (ErrFailedToParse err)
         | Inr res \<Rightarrow> Inr (GBool res))
      else if valueType = 1 then
        (case ParseInt value' of
           Inl err \<Rightarrow> Inl (ErrFailedToParse err)
         | Inr res \<Rightarrow> Inr (GInt res))
      else if valueType = 2 then
        (case ParseFloat L value' of
           Inl err \<Rightarrow> Inl (ErrFailedToParse err)
         | Inr res \<Rightarrow> Inr (GFloat64 res))
      else if valueType = 3 then Inr (GString value')
      else Inl ErrUnrecognizable)"


section \<open>The database behind an \<^verbatim>\<open>Instance\<close>\<close>

text \<open>
  An \<^verbatim>\<open>Instance\<close> holds nothing but the \<^verbatim>\<open>*sql.DB\<close> handle, which the caller supplies;
  the package-level functions of \<^verbatim>\<open>metadb.go\<close> keep the same handle in a global.  The
  model passes the database the handle stands for:
  \<^item> \<open>alive\<close>: statements execute (otherwise every one fails with a driver error);
  \<^item> \<open>column_text\<close>: the driver's treatment of a value bound to the \<^verbatim>\<open>Value\<close> column,
    as the text that \<^verbatim>\<open>Scan\<close> into a \<^verbatim>\<open>string\<close> later reads back from that cell, or
    \<open>None\<close> when the statement is rejected because of the value;
  \<^item> \<open>rows_affected\<close>: whether the driver supports \<^verbatim>\<open>Result.RowsAffected\<close>;
  \<^item> \<open>metadata\<close>: the table, \<^verbatim>\<open>Name\<close> (unique) to \<^verbatim>\<open>(Value, ValueType)\<close>, with
    \<^verbatim>\<open>Value\<close> as \<^verbatim>\<open>Scan\<close> reads it into a \<^verbatim>\<open>string\<close> and \<^verbatim>\<open>ValueType\<close> into a \<^verbatim>\<open>uint\<close>.
  \<^verbatim>\<open>WHERE name = ?\<close> selects the row whose name equals the argument.
\<close>

record sqlDB =
  alive :: bool
  column_text :: "gvalue \<Rightarrow> string option"
  rows_affected :: bool
  metadata :: "string \<rightharpoonup> string \<times> 64 word"

text \<open>\<^verbatim>\<open>QueryRow("SELECT ... FROM metadata WHERE name = ?", name).Scan(...)\<close>\<close>

definition query_row :: "sqlDB \<Rightarrow> string \<Rightarrow> sql_error + string \<times> 64 word" where
  "query_row db name =
     (if \<not> alive db then Inl ErrDriver
      else case metadata db name of None \<Rightarrow> Inl ErrNoRows | Some row \<Rightarrow> Inr row)"

text \<open>\<^verbatim>\<open>Exec("INSERT INTO metadata (Name, Value, ValueType) VALUES (?, ?, ?);", name, value, valueType)\<close>;
  \<^verbatim>\<open>Name\<close> is \<^verbatim>\<open>UNIQUE\<close>.\<close>

definition exec_insert :: "sqlDB \<Rightarrow> string \<Rightarrow> gvalue \<Rightarrow> 64 word \<Rightarrow> sql_error + sqlDB" where
  "exec_insert db name v valueType =
     (if \<not> alive db then Inl ErrDriver
      else case column_text db v of
             None \<Rightarrow> Inl ErrDriver
           | Some text \<Rightarrow>
               if metadata db name \<noteq> None then Inl ErrDriver
               else Inr (db\<lparr>metadata := (metadata db)(name \<mapsto> (text, valueType))\<rparr>))"

text \<open>\<^verbatim>\<open>Exec("UPDATE metadata SET Value = ? WHERE Name = ?;", value, name)\<close>\<close>

definition exec_update :: "sqlDB \<Rightarrow> string \<Rightarrow> gvalue \<Rightarrow> sql_error + sqlDB" where
  "exec_update db name v =
     (if \<not> alive db then Inl ErrDriver
      else case column_text db v of
             None \<Rightarrow> Inl ErrDriver
           | Some text \<Rightarrow>
               (case metadata db name of
                  None \<Rightarrow> Inr db
                | Some (old, valueType) \<Rightarrow>
                    Inr (db\<lparr>metadata := (metadata db)(name \<mapsto> (text, valueType))\<rparr>)))"

text \<open>\<^verbatim>\<open>Exec("DELETE FROM metadata WHERE name = ?;", name)\<close>, with what
  \<^verbatim>\<open>RowsAffected\<close> then answers: the count, or an error where it is not supported.\<close>

definition exec_delete :: "sqlDB \<Rightarrow> string \<Rightarrow> sql_error + sqlDB \<times> (sql_error + nat)" where
  "exec_delete db name =
     (if \<not> alive db then Inl ErrDriver
      else Inr (db\<lparr>metadata := (metadata db)(name := None)\<rparr>,
                if \<not> rows_affected db then Inl ErrDriver
                else Inr (if metadata db name = None then 0 else 1)))"


section \<open>The store\<close>

definition Exists :: "sqlDB \<Rightarrow> string \<Rightarrow> bool outcome" where
  "Exists db name =
     (case query_row db name of
        Inl err \<Rightarrow> if err = ErrNoRows then Returns False else Panics ErrExistsFailed
      | Inr row \<Rightarrow> Returns True)"

definition getValueType :: "sqlDB \<Rightarrow> string \<Rightarrow> error + 64 word" where
  "getValueType db name =
     (case query_row db name of
        Inl err \<Rightarrow> if err = ErrNoRows then Inl (ErrNoEntry name) else Inl (ErrSQL err)
      | Inr (value', valueType) \<Rightarrow> Inr valueType)"

definition Get :: "strconv_float \<Rightarrow> sqlDB \<Rightarrow> string \<Rightarrow> error + gvalue" where
  "Get L db name =
     (case query_row db name of
        Inl err \<Rightarrow> if err = ErrNoRows then Inl (ErrNoEntry name) else Inl (ErrSQL err)
      | Inr (value', valueType) \<Rightarrow> fromBlobString L value' valueType)"

text \<open>\<^verbatim>\<open>Instance.set\<close>.  The result is the error returned, if any, and the database
  afterwards.  The value handed to \<^verbatim>\<open>Exec\<close> is \<open>v\<close> itself.\<close>

definition set' :: "sqlDB \<Rightarrow> string \<Rightarrow> gvalue \<Rightarrow> bool \<Rightarrow> error option \<times> sqlDB" where
  "set' db name v force =
     (case toValueType v of
        Inl err \<Rightarrow> (Some err, db)
      | Inr valueType \<Rightarrow>
          (case getValueType db name of
             Inl err \<Rightarrow>
               (case err of
                  ErrNoEntry n \<Rightarrow>
                    (case exec_insert db name v valueType of
                       Inl e \<Rightarrow> (Some (ErrInsertFailed name), db)
                     | Inr db' \<Rightarrow> (None, db'))
                | _ \<Rightarrow> (Some err, db))
           | Inr currentType \<Rightarrow>
               if \<not> force \<and> valueType \<noteq> currentType then (Some (ErrTypeChange name), db)
               else (case exec_update db name v of
                       Inl e \<Rightarrow> (Some (ErrUpdateFailed name), db)
                     | Inr db' \<Rightarrow> (None, db'))))"

definition Set' :: "sqlDB \<Rightarrow> string \<Rightarrow> gvalue \<Rightarrow> error option \<times> sqlDB" where
  "Set' db name v = set' db name v False"

definition ForceSet :: "sqlDB \<Rightarrow> string \<Rightarrow> gvalue \<Rightarrow> error option \<times> sqlDB" where
  "ForceSet db name v = set' db name v True"

text \<open>\<^verbatim>\<open>set\<close> of \<^verbatim>\<open>metadb.go\<close>, on the global handle: it asks \<^verbatim>\<open>toBlobString\<close> for the
  type and drops the text.\<close>

definition set_global ::
  "strconv_float \<Rightarrow> sqlDB \<Rightarrow> string \<Rightarrow> gvalue \<Rightarrow> bool \<Rightarrow> error option \<times> sqlDB" where
  "set_global L db name v force =
     (case toBlobString L v of
        Inl err \<Rightarrow> (Some err, db)
      | Inr (blob, valueType) \<Rightarrow>
          (case getValueType db name of
             Inl err \<Rightarrow>
               (case err of
                  ErrNoEntry n \<Rightarrow>
                    (case exec_insert db name v valueType of
                       Inl e \<Rightarrow> (Some (ErrInsertFailed name), db)
                     | Inr db' \<Rightarrow> (None, db'))
                | _ \<Rightarrow> (Some err, db))
           | Inr currentType \<Rightarrow>
               if \<not> force \<and> valueType \<noteq> currentType then (Some (ErrTypeChange name), db)
               else (case exec_update db name v of
                       Inl e \<Rightarrow> (Some (ErrUpdateFailed name), db)
                     | Inr db' \<Rightarrow> (None, db'))))"

definition Delete :: "sqlDB \<Rightarrow> string \<Rightarrow> (error option \<times> sqlDB) outcome" where
  "Delete db name =
     (case exec_delete db name of
        Inl err \<Rightarrow> Panics (ErrDeleteFailed name)
      | Inr (db', res) \<Rightarrow>
          (case res of
             Inl err \<Rightarrow> Returns (None, db')
           | Inr affected \<Rightarrow>
               if affected = 0 then Returns (Some (ErrNoEntry name), db')
               else Returns (None, db')))"


section \<open>A concrete backend for the scenarios\<close>

text \<open>
  The tests of the repository run on SQLite, through \<^verbatim>\<open>database/sql\<close> and the
  \<^verbatim>\<open>go-sqlite3\<close> driver; neither is part of the package.  \<open>sqlite3_text\<close> is what that
  backend does with a value bound to the \<^verbatim>\<open>Value BLOB NOT NULL\<close> column, seen through a later
  \<^verbatim>\<open>Scan\<close> into a \<^verbatim>\<open>string\<close>: a boolean is stored as the integer 1 or 0 and an \<^verbatim>\<open>int\<close>
  as an integer, both read back in decimal; a float is stored as a double and read back
  with \<^verbatim>\<open>FormatFloat(f, 'g', -1, 64)\<close>, except that SQLite turns a NaN into \<^verbatim>\<open>NULL\<close>, which
  the column refuses; a string is stored as it is; a slice is refused by \<^verbatim>\<open>database/sql\<close>
  and nil is \<^verbatim>\<open>NULL\<close>.
\<close>

fun sqlite3_text :: "strconv_float \<Rightarrow> gvalue \<Rightarrow> string option" where
  "sqlite3_text L (GBool b) = Some (if b then ''1'' else ''0'')"
| "sqlite3_text L (GInt i) = Some (FormatInt i)"
| "sqlite3_text L (GInt64 i) = Some (FormatInt i)"
| "sqlite3_text L (GFloat64 f) = (if isNaN f then None else Some (FormatFloat L f CHR ''g''))"
| "sqlite3_text L (GString s) = Some s"
| "sqlite3_text L (GStrings ss) = None"
| "sqlite3_text L GNil = None"

text \<open>Three lines of the table of \<^verbatim>\<open>strconv\<close>'s float conversions, for the scenarios that
  need a float: 1.0, the largest finite double and the smallest positive one, in the
  formats \<^verbatim>\<open>'E'\<close> and \<^verbatim>\<open>'g'\<close>.  Outside these lines the table is silent (it prints nothing
  and parses nothing).\<close>

definition float_table :: strconv_float where
  "float_table =
     \<lparr> ftoa = (\<lambda>f fmt.
          if f = 0x3FF0000000000000 then (if fmt = CHR ''E'' then ''1E+00'' else ''1'')
          else if f = 0x7FEFFFFFFFFFFFFF
            then (if fmt = CHR ''E'' then ''1.7976931348623157E+308'' else ''1.7976931348623157e+308'')
          else if f = 0x0000000000000001 then (if fmt = CHR ''E'' then ''5E-324'' else ''5e-324'')
          else []),
       atof = (\<lambda>s.
          if s = ''1E+00'' \<or> s = ''1'' then Inr 0x3FF0000000000000
          else if s = ''1.7976931348623157E+308'' \<or> s = ''1.7976931348623157e+308''
            then Inr 0x7FEFFFFFFFFFFFFF
          else if s = ''5E-324'' \<or> s = ''5e-324'' then Inr 0x0000000000000001
          else Inl ErrSyntax) \<rparr>"

text \<open>A live SQLite database with an empty \<^verbatim>\<open>metadata\<close> table, as \<^verbatim>\<open>NewInstance\<close> leaves
  it.\<close>

definition empty_sqlite :: sqlDB where
  "empty_sqlite =
     \<lparr> alive = True, column_text = sqlite3_text float_table, rows_affected = True,
       metadata = Map.empty \<rparr>"


section \<open>The vocabulary of the properties\<close>

text \<open>The four types the documentation of \<^verbatim>\<open>Set\<close> allows: \<^verbatim>\<open>bool\<close>, \<^verbatim>\<open>int\<close>,
  \<^verbatim>\<open>float64\<close> and \<^verbatim>\<open>string\<close>.\<close>

fun supported :: "gvalue \<Rightarrow> bool" where
  "supported (GBool b) = True"
| "supported (GInt i) = True"
| "supported (GFloat64 f) = True"
| "supported (GString s) = True"
| "supported (GInt64 i) = False"
| "supported (GStrings ss) = False"
| "supported GNil = False"


section \<open>Integers written and read back\<close>

lemma byte_digit_char: "d < 10 \<Longrightarrow> byte (digit_char d) = 48 + d"
  by (simp add: byte_def digit_char_def)

lemma digit_val_digit_char: "d < 10 \<Longrightarrow> digit_val (digit_char d) = Some d"
  by (simp add: digit_val_def byte_digit_char) (simp add: byte_def)

lemma ParseUint_loop_formatBits:
  "u \<le> maxUint64 \<Longrightarrow> ParseUint_loop 0 (formatBits_loop u a) = ParseUint_loop u a"
proof (induction u a rule: formatBits_loop.induct)
  case (1 u a)
  show ?case
  proof (cases "10 \<le> u")
    case True
    have le: "u div 10 \<le> maxUint64" using "1.prems" by simp
    have lt: "\<not> maxUint64 div 10 + 1 \<le> u div 10"
      using "1.prems" by (simp add: maxUint64_def)
    have "ParseUint_loop 0 (formatBits_loop u a)
        = ParseUint_loop (u div 10) (digit_char (u mod 10) # a)"
      using True "1.IH" [OF True le] by (subst formatBits_loop.simps) simp
    also have "\<dots> = ParseUint_loop u a"
    proof -
      have "u mod 10 < 10" by simp
      then have "\<not> 10 \<le> u mod 10" by (simp only: not_le)
      moreover have "\<not> maxUint64 < u div 10 * 10 + u mod 10" using "1.prems" by simp
      ultimately show ?thesis using lt by (simp add: digit_val_digit_char)
    qed
    finally show ?thesis .
  next
    case False
    then show ?thesis
      using "1.prems" by (subst formatBits_loop.simps) (simp add: digit_val_digit_char)
  qed
qed

lemma formatBits_loop_hd:
  "\<exists>d cs. d < 10 \<and> formatBits_loop u a = digit_char d # cs"
proof (induction u a rule: formatBits_loop.induct)
  case (1 u a)
  show ?case
  proof (cases "10 \<le> u")
    case True
    then show ?thesis using "1.IH" by (subst formatBits_loop.simps) simp
  next
    case False
    then have "u < 10" by simp
    then show ?thesis by (subst formatBits_loop.simps) auto
  qed
qed

lemma digit_char_not_sign: "d < 10 \<Longrightarrow> digit_char d \<noteq> CHR ''-'' \<and> digit_char d \<noteq> CHR ''+''"
proof -
  assume "d < 10"
  then have "byte (digit_char d) = 48 + d" by (rule byte_digit_char)
  moreover have "byte CHR ''-'' = 45" "byte CHR ''+'' = 43" by (simp_all add: byte_def)
  ultimately show ?thesis by auto
qed



lemma uint_lt64: "uint (i :: 64 word) < 18446744073709551616"
  using uint_bounded [of i] by simp

lemma sint_cases64:
  "sint (i :: 64 word) = uint i \<or> sint i = uint i - 18446744073709551616"
proof -
  have "take_bit 64 (uint i) = uint i"
    using uint_lt64 [of i] by (simp add: take_bit_int_eq_self)
  then show ?thesis
    using signed_take_bit_eq_take_bit_minus [of 63 "uint i"]
    by (auto simp: sint_uint)
qed

lemma unat_neg_bound: "(i :: 64 word) <s 0 \<Longrightarrow> unat (- i) \<le> 2 ^ 63"
proof -
  assume "i <s 0"
  then have neg: "sint i < 0" by (simp add: word_sless_alt)
  have "0 \<le> uint i" by simp
  with neg sint_cases64 [of i] have eq: "sint i = uint i - 18446744073709551616" by linarith
  have "- 9223372036854775808 \<le> sint i" using sint_ge [of i] by simp
  with eq have ge: "9223372036854775808 \<le> uint i" by linarith
  have "uint (- i) = (- uint i) mod 18446744073709551616" by (simp add: uint_word_ariths)
  also have "\<dots> = 18446744073709551616 - uint i"
    using ge uint_lt64 [of i] by (simp add: zmod_zminus1_eq_if)
  finally have "uint (- i) \<le> 9223372036854775808" using ge by linarith
  then have "nat (uint (- i)) \<le> 9223372036854775808" by linarith
  then show ?thesis by (simp only: unat_eq_nat_uint) simp
qed

lemma unat_pos_bound: "\<not> (i :: 64 word) <s 0 \<Longrightarrow> unat i < 2 ^ 63"
proof -
  assume "\<not> i <s 0"
  then have nonneg: "0 \<le> sint i" by (simp add: word_sless_alt)
  with sint_cases64 [of i] uint_lt64 [of i] have "sint i = uint i" by linarith
  moreover have "sint i < 9223372036854775808" using sint_lt [of i] by simp
  ultimately have "uint i < 9223372036854775808" by linarith
  then have "nat (uint i) < 9223372036854775808" by linarith
  then show ?thesis by (simp only: unat_eq_nat_uint) simp
qed

lemma ParseInt_FormatInt: "ParseInt (FormatInt i) = Inr i"
proof (cases "i <s 0")
  case True
  let ?u = "unat (- i)"
  have le: "?u \<le> maxUint64"
    using unat_neg_bound [OF True] by (simp add: maxUint64_def)
  obtain d cs where ds: "formatBits_loop ?u [] = digit_char d # cs"
    using formatBits_loop_hd by blast
  have "ParseUint (formatBits_loop ?u []) = (?u, None)"
    using ParseUint_loop_formatBits [OF le, of "[]"] by (simp add: ParseUint_def ds)
  then show ?thesis
    using True unat_neg_bound [OF True] by (simp add: ParseInt_def FormatInt_def)
next
  case False
  let ?u = "unat i"
  have le: "?u \<le> maxUint64"
    using unat_pos_bound [OF False] by (simp add: maxUint64_def)
  obtain d cs where d: "d < 10" and ds: "formatBits_loop ?u [] = digit_char d # cs"
    using formatBits_loop_hd by blast
  have "ParseUint (formatBits_loop ?u []) = (?u, None)"
    using ParseUint_loop_formatBits [OF le, of "[]"] by (simp add: ParseUint_def ds)
  then show ?thesis
    using False unat_pos_bound [OF False] digit_char_not_sign [OF d]
    by (simp add: ParseInt_def FormatInt_def ds)
qed


lemma ParseBool_FormatBool: "ParseBool (FormatBool b) = Inr b"
  by (simp add: ParseBool_def FormatBool_def)

lemma toBlobString_type:
  "toValueType v = Inr t \<Longrightarrow> \<exists>blob. toBlobString L v = Inr (blob, t)"
  by (cases v) auto

lemma toBlobString_disallowed:
  "toValueType v = Inl e \<Longrightarrow> toBlobString L v = Inl e"
  by (cases v) auto

lemma getValueType_absent:
  "alive db \<Longrightarrow> metadata db name = None \<Longrightarrow> getValueType db name = Inl (ErrNoEntry name)"
  by (simp add: getValueType_def query_row_def)

lemma getValueType_present:
  "alive db \<Longrightarrow> metadata db name = Some (old, T) \<Longrightarrow> getValueType db name = Inr T"
  by (simp add: getValueType_def query_row_def)

lemma Get_present:
  "alive db \<Longrightarrow> metadata db name = Some (s, t) \<Longrightarrow> Get L db name = fromBlobString L s t"
  by (simp add: Get_def query_row_def)

lemma set'_insert:
  assumes "alive db" and "metadata db name = None"
    and "toValueType v = Inr t" and "column_text db v = Some txt"
  shows "set' db name v force = (None, db\<lparr>metadata := (metadata db)(name \<mapsto> (txt, t))\<rparr>)"
  using assms by (simp add: set'_def getValueType_absent exec_insert_def)

lemma set'_update:
  assumes "alive db" and "metadata db name = Some (old, T)"
    and "toValueType v = Inr t" and "column_text db v = Some txt"
    and "force \<or> t = T"
  shows "set' db name v force = (None, db\<lparr>metadata := (metadata db)(name \<mapsto> (txt, T))\<rparr>)"
  using assms by (auto simp add: set'_def getValueType_present exec_update_def)

lemma set_global_eq: "set_global L db name v force = set' db name v force"
proof (cases "toValueType v")
  case (Inl e)
  then show ?thesis by (simp add: set_global_def set'_def toBlobString_disallowed)
next
  case (Inr t)
  then obtain blob where "toBlobString L v = Inr (blob, t)"
    using toBlobString_type by blast
  with Inr show ?thesis by (simp add: set_global_def set'_def)
qed


section \<open>Properties of the codec\<close>

text \<open>
  Claim C10.  Decoding with the boolean type 0 accepts more texts than the two that
  \<^verbatim>\<open>FormatBool\<close> writes: \<^verbatim>\<open>1\<close>, \<^verbatim>\<open>0\<close>, \<^verbatim>\<open>t\<close>, \<^verbatim>\<open>T\<close>, \<^verbatim>\<open>TRUE\<close> and \<^verbatim>\<open>False\<close> all decode,
  without error, to the boolean they spell, as \<^verbatim>\<open>strconv.ParseBool\<close> reads them.
\<close>

theorem fromBlobString_bool_spellings:
  "fromBlobString L ''1'' 0 = Inr (GBool True) \<and>
   fromBlobString L ''0'' 0 = Inr (GBool False) \<and>
   fromBlobString L ''t'' 0 = Inr (GBool True) \<and>
   fromBlobString L ''T'' 0 = Inr (GBool True) \<and>
   fromBlobString L ''TRUE'' 0 = Inr (GBool True) \<and>
   fromBlobString L ''False'' 0 = Inr (GBool False)"
  by (simp add: fromBlobString_def ParseBool_def)

text \<open>
  Claim C6.  A type outside 0, 1, 2, 3 makes \<^verbatim>\<open>fromBlobString\<close> fail with the error for
  an unrecognizable type, whatever the text is; so \<^verbatim>\<open>Get\<close> on a live database returns
  that error for an entry whose row carries such a type.
\<close>

theorem unknown_type_unrecognizable:
  "t \<noteq> 0 \<and> t \<noteq> 1 \<and> t \<noteq> 2 \<and> t \<noteq> 3 \<Longrightarrow>
     fromBlobString L s t = Inl ErrUnrecognizable \<and>
     (alive db \<and> metadata db name = Some (s, t) \<longrightarrow> Get L db name = Inl ErrUnrecognizable)"
  by (simp add: fromBlobString_def Get_def query_row_def)

theorem unknown_type_unrecognizable_witness:
  "fromBlobString float_table ''nothing'' 100 = Inl ErrUnrecognizable \<and>
   Get float_table (empty_sqlite\<lparr>metadata := [''unknown'' \<mapsto> (''nothing'', 100)]\<rparr>) ''unknown''
     = Inl ErrUnrecognizable"
  using unknown_type_unrecognizable
    [of 100 float_table "''nothing''"
        "empty_sqlite\<lparr>metadata := [''unknown'' \<mapsto> (''nothing'', 100)]\<rparr>" "''unknown''"]
  by (simp add: empty_sqlite_def)


section \<open>Properties of the store\<close>

text \<open>
  Claim C9.  On a live database with no row for a name, \<^verbatim>\<open>Get\<close> fails with the
  \<^verbatim>\<open>ErrNoEntry\<close> that carries that name; no value is returned in its place.
\<close>

theorem Get_absent_no_entry:
  "alive db \<Longrightarrow> metadata db name = None \<Longrightarrow> Get L db name = Inl (ErrNoEntry name)"
  by (simp add: Get_def query_row_def)

theorem Get_absent_no_entry_witness:
  "alive empty_sqlite \<and> metadata empty_sqlite ''missing-key'' = None \<and>
   Get float_table empty_sqlite ''missing-key'' = Inl (ErrNoEntry ''missing-key'')"
  using Get_absent_no_entry [of empty_sqlite "''missing-key''" float_table]
  by (simp add: empty_sqlite_def)

text \<open>
  Claim C2.  When the entry exists with type \<open>T\<close> and text \<open>v1\<close>, and the new value is of
  a supported type whose number differs from \<open>T\<close>, \<^verbatim>\<open>Set\<close> returns the error about a
  change of type and the database is the one it was given: the row is still \<open>(v1, T)\<close>.
\<close>

theorem Set_type_change_rejected:
  "alive db \<Longrightarrow> metadata db name = Some (v1, T) \<Longrightarrow> toValueType v = Inr T' \<Longrightarrow> T' \<noteq> T \<Longrightarrow>
     Set' db name v = (Some (ErrTypeChange name), db) \<and>
     metadata (snd (Set' db name v)) name = Some (v1, T)"
  by (simp add: Set'_def set'_def getValueType_present)

theorem Set_type_change_rejected_witness:
  "Set' (empty_sqlite\<lparr>metadata := [''foo'' \<mapsto> (''1'', 0)]\<rparr>) ''foo'' (GInt 1784)
     = (Some (ErrTypeChange ''foo''), empty_sqlite\<lparr>metadata := [''foo'' \<mapsto> (''1'', 0)]\<rparr>) \<and>
   metadata (snd (Set' (empty_sqlite\<lparr>metadata := [''foo'' \<mapsto> (''1'', 0)]\<rparr>) ''foo'' (GInt 1784)))
     ''foo'' = Some (''1'', 0)"
  using Set_type_change_rejected
    [of "empty_sqlite\<lparr>metadata := [''foo'' \<mapsto> (''1'', 0)]\<rparr>" "''foo''" "''1''" 0 "GInt 1784" 1]
  by (simp add: empty_sqlite_def)

text \<open>
  Claim C8.  A value whose type is not one of the four supported ones makes \<^verbatim>\<open>Set\<close> and
  \<^verbatim>\<open>ForceSet\<close> (and the older \<^verbatim>\<open>set\<close> on the global handle) return the error for a
  disallowed type before any statement is executed: the database afterwards is the
  database before, whether or not the entry existed.
\<close>

theorem unsupported_value_rejected:
  "\<not> supported v \<Longrightarrow>
     Set' db name v = (Some ErrDisallowedType, db) \<and>
     ForceSet db name v = (Some ErrDisallowedType, db) \<and>
     set_global L db name v force = (Some ErrDisallowedType, db)"
  by (cases v) (simp_all add: Set'_def ForceSet_def set'_def set_global_def)

theorem unsupported_value_rejected_witness:
  "\<not> supported (GStrings [''disallowed'', ''type'']) \<and>
   Set' empty_sqlite ''foo'' (GStrings [''disallowed'', ''type''])
     = (Some ErrDisallowedType, empty_sqlite) \<and>
   ForceSet empty_sqlite ''foo'' (GStrings [''disallowed'', ''type''])
     = (Some ErrDisallowedType, empty_sqlite) \<and>
   set_global float_table empty_sqlite ''foo'' (GStrings [''disallowed'', ''type'']) True
     = (Some ErrDisallowedType, empty_sqlite)"
  using unsupported_value_rejected
    [of "GStrings [''disallowed'', ''type'']" empty_sqlite "''foo''" float_table True]
  by simp

text \<open>
  Claim C7.  On a live database: \<^verbatim>\<open>Delete\<close> of an entry that exists returns no error
  and leaves a database without that row, on which \<^verbatim>\<open>Exists\<close> answers false; \<^verbatim>\<open>Delete\<close>
  of a name with no row returns the \<^verbatim>\<open>ErrNoEntry\<close> of that name when the driver
  reports the rows affected, and returns no error, the database unchanged, when the
  driver cannot report them.
\<close>

theorem Delete_cases:
  "alive db \<Longrightarrow>
     (metadata db name \<noteq> None \<longrightarrow>
        Delete db name = Returns (None, db\<lparr>metadata := (metadata db)(name := None)\<rparr>) \<and>
        Exists (db\<lparr>metadata := (metadata db)(name := None)\<rparr>) name = Returns False) \<and>
     (metadata db name = None \<and> rows_affected db \<longrightarrow>
        Delete db name = Returns (Some (ErrNoEntry name), db)) \<and>
     (metadata db name = None \<and> \<not> rows_affected db \<longrightarrow>
        Delete db name = Returns (None, db))"
  by (auto simp add: Delete_def exec_delete_def Exists_def query_row_def fun_upd_idem)

theorem Delete_cases_witness:
  "Delete (empty_sqlite\<lparr>metadata := [''int'' \<mapsto> (''2891'', 1)]\<rparr>) ''int''
     = Returns (None, empty_sqlite) \<and>
   Exists empty_sqlite ''int'' = Returns False \<and>
   Delete empty_sqlite ''foo'' = Returns (Some (ErrNoEntry ''foo''), empty_sqlite) \<and>
   Delete (empty_sqlite\<lparr>rows_affected := False\<rparr>) ''foo''
     = Returns (None, empty_sqlite\<lparr>rows_affected := False\<rparr>)"
  using Delete_cases [of "empty_sqlite\<lparr>metadata := [''int'' \<mapsto> (''2891'', 1)]\<rparr>" "''int''"]
    Delete_cases [of empty_sqlite "''foo''"]
    Delete_cases [of "empty_sqlite\<lparr>rows_affected := False\<rparr>" "''foo''"]
  by (simp add: empty_sqlite_def)

end
